theory Spec2Isabelle
  imports Main
begin

section \<open>re-call: a single-slot invocation cache\<close>

text \<open>
  A shallow embedding of \<^verbatim>\<open>src/index.ts\<close> and \<^verbatim>\<open>src/utils.ts\<close>.

  The library compares argument lists by reference (\<^verbatim>\<open>Object.is\<close>), by one level of
  \<^verbatim>\<open>===\<close>, or by a user's comparator, so the model keeps JavaScript's distinction
  between a value and a reference to a heap object: arrays and plain objects live in
  a heap and are addressed by \<open>VRef\<close>.
\<close>

subsection \<open>Values and the heap\<close>

type_synonym addr = nat

text \<open>
  Function objects. \<^verbatim>\<open>Object.is\<close> and \<^verbatim>\<open>shallowEqual\<close> are the two comparators whose
  behaviour the model fixes; every other function (the memoized callables, the
  comparators of a caller, the imported \<^verbatim>\<open>fast-deep-equal\<close>) is \<open>User n\<close> and gets
  its behaviour from the \<open>program\<close> record below.
\<close>

datatype fid = ObjectIs | ShallowEqual | User nat

text \<open>
  Numbers other than \<^verbatim>\<open>NaN\<close> and \<^verbatim>\<open>-0\<close> are represented by integers: the library only
  tests them for equality and truthiness. \<open>VNum 0\<close> is \<^verbatim>\<open>+0\<close>.
\<close>

datatype val =
    VUndefined
  | VNull
  | VBool bool
  | VNum int
  | VNaN
  | VNegZero
  | VStr string
  | VRef addr
  | VFun fid

text \<open>
  Property keys: an array index or a name. A \<open>Name\<close> never holds the decimal form of
  an index.
\<close>

datatype key = Index nat | Name string

text \<open>The keys of an \<open>Object\<close> are distinct, in insertion order.\<close>

datatype obj = Array "val list" | Object "(key \<times> val) list"

type_synonym heap = "obj list"

text \<open>The own properties of an object literal that is only read, never stored.\<close>

type_synonym props = "key \<rightharpoonup> val"

definition deref :: "heap \<Rightarrow> addr \<Rightarrow> obj option" where
  "deref h a = (if a < length h then Some (h ! a) else None)"

text \<open>A freshly allocated object gets the next unused address.\<close>

definition alloc :: "obj \<Rightarrow> heap \<Rightarrow> addr \<times> heap" where
  "alloc ob h = (length h, h @ [ob])"

subsection \<open>The operators of the language that the source uses\<close>

text \<open>\<^verbatim>\<open>a === b\<close>\<close>

definition is_zero :: "val \<Rightarrow> bool" where
  "is_zero v = (v = VNum 0 \<or> v = VNegZero)"

definition strict_eq :: "val \<Rightarrow> val \<Rightarrow> bool" where
  "strict_eq a b =
     (if a = VNaN \<or> b = VNaN then False
      else if is_zero a \<and> is_zero b then True
      else a = b)"

text \<open>\<^verbatim>\<open>Object.is(a, b)\<close>: \<^verbatim>\<open>NaN\<close> is itself, \<^verbatim>\<open>+0\<close> is not \<^verbatim>\<open>-0\<close>.\<close>

definition Object_is :: "val \<Rightarrow> val \<Rightarrow> bool" where
  "Object_is a b = (a = b)"

text \<open>The truthiness that \<^verbatim>\<open>||\<close> and \<^verbatim>\<open>&&\<close> test.\<close>

fun truthy :: "val \<Rightarrow> bool" where
  "truthy VUndefined = False"
| "truthy VNull = False"
| "truthy (VBool b) = b"
| "truthy (VNum n) = (n \<noteq> 0)"
| "truthy VNaN = False"
| "truthy VNegZero = False"
| "truthy (VStr s) = (s \<noteq> [])"
| "truthy (VRef a) = True"
| "truthy (VFun f) = True"

text \<open>\<^verbatim>\<open>a ?? b\<close> takes \<open>b\<close> exactly when \<open>a\<close> is \<^verbatim>\<open>undefined\<close> or \<^verbatim>\<open>null\<close>.\<close>

definition nullish :: "val \<Rightarrow> bool" where
  "nullish v = (v = VUndefined \<or> v = VNull)"

fun typeof :: "val \<Rightarrow> string" where
  "typeof VUndefined = ''undefined''"
| "typeof VNull = ''object''"
| "typeof (VBool b) = ''boolean''"
| "typeof (VNum n) = ''number''"
| "typeof VNaN = ''number''"
| "typeof VNegZero = ''number''"
| "typeof (VStr s) = ''string''"
| "typeof (VRef a) = ''object''"
| "typeof (VFun f) = ''function''"

text \<open>The own enumerable properties of a heap object, in the order of \<^verbatim>\<open>Object.keys\<close>.\<close>

fun enum_props :: "obj \<Rightarrow> (key \<times> val) list" where
  "enum_props (Array xs) = zip (map Index [0..<length xs]) xs"
| "enum_props (Object kvs) = kvs"

text \<open>
  \<^verbatim>\<open>Object.keys(v)\<close>, \<^verbatim>\<open>Object.prototype.hasOwnProperty.call(v, key)\<close> and \<^verbatim>\<open>v[key]\<close> for a
  reference \<open>v\<close>; \<open>shallowEqual\<close> reaches them with non-null objects only, and reads
  \<^verbatim>\<open>v[key]\<close> only for an own key. An array owns its indices and \<^verbatim>\<open>length\<close>, which is
  not enumerable. A reference outside the heap does not occur in a run; it is given
  no properties.
\<close>

definition Object_keys :: "heap \<Rightarrow> val \<Rightarrow> key list" where
  "Object_keys h v =
     (case v of
        VRef a \<Rightarrow> (case deref h a of Some ob \<Rightarrow> map fst (enum_props ob) | None \<Rightarrow> [])
      | _ \<Rightarrow> [])"

definition hasOwnProperty :: "heap \<Rightarrow> val \<Rightarrow> key \<Rightarrow> bool" where
  "hasOwnProperty h v k =
     (case v of
        VRef a \<Rightarrow>
          (case deref h a of
             Some (Array xs) \<Rightarrow>
               (case k of Index i \<Rightarrow> i < length xs | Name n \<Rightarrow> n = ''length'')
           | Some (Object kvs) \<Rightarrow> k \<in> set (map fst kvs)
           | None \<Rightarrow> False)
      | _ \<Rightarrow> False)"

definition get_prop :: "heap \<Rightarrow> val \<Rightarrow> key \<Rightarrow> val" where
  "get_prop h v k =
     (case v of
        VRef a \<Rightarrow>
          (case deref h a of
             Some (Array xs) \<Rightarrow>
               (case k of
                  Index i \<Rightarrow> if i < length xs then xs ! i else VUndefined
                | Name n \<Rightarrow> if n = ''length'' then VNum (int (length xs)) else VUndefined)
           | Some (Object kvs) \<Rightarrow> (case map_of kvs k of Some x \<Rightarrow> x | None \<Rightarrow> VUndefined)
           | None \<Rightarrow> VUndefined)
      | _ \<Rightarrow> VUndefined)"

text \<open>
  What the spread \<^verbatim>\<open>{...v}\<close> copies: the own enumerable properties of an object, the
  characters of a string, nothing of any other value.
\<close>

definition own_props :: "heap \<Rightarrow> val \<Rightarrow> props" where
  "own_props h v =
     (case v of
        VRef a \<Rightarrow> (case deref h a of Some ob \<Rightarrow> map_of (enum_props ob) | None \<Rightarrow> Map.empty)
      | VStr s \<Rightarrow> map_of (zip (map Index [0..<length s]) (map (\<lambda>c. VStr [c]) s))
      | _ \<Rightarrow> Map.empty)"

text \<open>Reading a property of an object literal: \<^verbatim>\<open>undefined\<close> when it is missing.\<close>

definition field :: "props \<Rightarrow> string \<Rightarrow> val" where
  "field m n = (case m (Name n) of Some v \<Rightarrow> v | None \<Rightarrow> VUndefined)"

subsection \<open>utils.ts\<close>

text \<open>
  The loop of \<^verbatim>\<open>shallowEqual\<close> over \<^verbatim>\<open>prevKeys\<close>: it returns false at the first key that
  \<open>next\<close> does not own or whose two values are not \<^verbatim>\<open>===\<close>.
\<close>

fun shallowEqual_loop :: "heap \<Rightarrow> val \<Rightarrow> val \<Rightarrow> key list \<Rightarrow> bool" where
  "shallowEqual_loop h prev next [] = True"
| "shallowEqual_loop h prev next (k # ks) =
     (if \<not> hasOwnProperty h next k \<or> \<not> strict_eq (get_prop h prev k) (get_prop h next k)
      then False
      else shallowEqual_loop h prev next ks)"

definition shallowEqual :: "heap \<Rightarrow> val \<Rightarrow> val \<Rightarrow> bool" where
  "shallowEqual h prev next =
     (if strict_eq prev next then True
      else if typeof prev \<noteq> ''object'' \<or> typeof next \<noteq> ''object''
              \<or> prev = VNull \<or> next = VNull then False
      else
        (let prevKeys = Object_keys h prev;
             nextKeys = Object_keys h next
         in if length prevKeys \<noteq> length nextKeys then False
            else shallowEqual_loop h prev next prevKeys))"

subsection \<open>The functions of the program\<close>

text \<open>
  What a call can raise: a \<^verbatim>\<open>TypeError\<close> of the runtime, or a value thrown by a
  callable.
\<close>

datatype exn = TypeError | Thrown val

text \<open>
  The code of the functions that the library is used with, which it calls but does
  not contain:
  \<^item> \<open>fn_length f\<close> is \<^verbatim>\<open>f.length\<close>, the declared parameter count;
  \<^item> \<open>fn_apply f this args h\<close> is \<^verbatim>\<open>f.apply(this, args)\<close> run on the heap \<open>h\<close>: what it
    throws or returns, and the heap it leaves. A callable acts on the heap only: one
    that calls back into the library is outside the model;
  \<^item> \<open>fn_compare n h prev next\<close> is the call \<^verbatim>\<open>f(prev, next)\<close> of the function \<open>User n\<close>
    used as a comparator, of the declared type \<^verbatim>\<open>(prev: T, next: T) => boolean\<close>;
  \<^item> \<open>deepEqual\<close> is the default export of the package \<^verbatim>\<open>fast-deep-equal\<close>, whose
    source is not part of the repository;
  \<^item> \<open>globalThis\<close> is the global object.

  These are total functions: every call that the model makes returns or throws.
  Whether \<^verbatim>\<open>fast-deep-equal\<close> does so on cyclic values is therefore not decided here.
\<close>

record program =
  fn_length :: "fid \<Rightarrow> nat"
  fn_apply :: "fid \<Rightarrow> val \<Rightarrow> val \<Rightarrow> heap \<Rightarrow> (exn + val) \<times> heap"
  fn_compare :: "nat \<Rightarrow> heap \<Rightarrow> val \<Rightarrow> val \<Rightarrow> bool"
  deepEqual :: fid
  globalThis :: val

text \<open>
  The call \<^verbatim>\<open>comparator(prev, next)\<close>. Calling a value that is not a function raises a
  \<^verbatim>\<open>TypeError\<close>.
\<close>

definition call_comparator :: "program \<Rightarrow> val \<Rightarrow> heap \<Rightarrow> val \<Rightarrow> val \<Rightarrow> exn + bool" where
  "call_comparator prog c h prev next =
     (case c of
        VFun ObjectIs \<Rightarrow> Inr (Object_is prev next)
      | VFun ShallowEqual \<Rightarrow> Inr (shallowEqual h prev next)
      | VFun (User n) \<Rightarrow> Inr (fn_compare prog n h prev next)
      | _ \<Rightarrow> Inl TypeError)"

subsection \<open>index.ts: the cache and the engine\<close>

text \<open>A value of the \<^verbatim>\<open>WeakMap\<close>: \<^verbatim>\<open>{ result, params, thisArg }\<close>.\<close>

record cacheData =
  result :: val
  params :: val
  thisArg :: val

text \<open>
  The state of a run: the module variable \<^verbatim>\<open>cache\<close>, the heap, and \<open>calls\<close>, which is
  not in the source: it lists every \<^verbatim>\<open>fn.apply(thisValue, params)\<close> that the engine has
  made, so that ``the callable is invoked'' can be stated.
\<close>

record state =
  cache :: "fid \<rightharpoonup> cacheData"
  heap :: heap
  calls :: "(fid \<times> val \<times> val) list"

definition defaultOptions :: props where
  "defaultOptions =
     [Name ''this'' \<mapsto> VUndefined, Name ''thisArg'' \<mapsto> VUndefined,
      Name ''comparator'' \<mapsto> VFun ObjectIs]"

text \<open>
  Line 20: \<^verbatim>\<open>{ ...defaultOptions, ...options }\<close>, destructured. Line 22:
  \<^verbatim>\<open>thisContext || thisArg || globalThis\<close>.
\<close>

definition comparator_of :: "props \<Rightarrow> val" where
  "comparator_of options = field (defaultOptions ++ options) ''comparator''"

definition this_value :: "program \<Rightarrow> props \<Rightarrow> val" where
  "this_value prog options =
     (let thisContext = field (defaultOptions ++ options) ''this'';
          thisArg = field (defaultOptions ++ options) ''thisArg''
      in if truthy thisContext then thisContext
         else if truthy thisArg then thisArg
         else globalThis prog)"

text \<open>
  Lines 28 to 30: the callable is applied; when it returns, the record is written;
  when it throws, the exception leaves \<^verbatim>\<open>_reCall\<close> before \<^verbatim>\<open>cache.set\<close>.
\<close>

definition invoke :: "program \<Rightarrow> fid \<Rightarrow> val \<Rightarrow> val \<Rightarrow> state \<Rightarrow> (exn + val) \<times> state" where
  "invoke prog fn thisValue args s =
     (case fn_apply prog fn thisValue args (heap s) of
        (Inl e, h') \<Rightarrow>
          (Inl e, s\<lparr>heap := h', calls := calls s @ [(fn, thisValue, args)]\<rparr>)
      | (Inr res, h') \<Rightarrow>
          (Inr res,
           s\<lparr>cache := (cache s)(fn \<mapsto> \<lparr>result = res, params = args, thisArg = thisValue\<rparr>),
             heap := h', calls := calls s @ [(fn, thisValue, args)]\<rparr>))"

text \<open>
  \<^verbatim>\<open>_reCall(fn, params, options)\<close>. The argument list is called \<open>args\<close> here, \<open>params\<close>
  being the field of the record.
\<close>

definition reCall :: "program \<Rightarrow> fid \<Rightarrow> val \<Rightarrow> props \<Rightarrow> state \<Rightarrow> (exn + val) \<times> state" where
  "reCall prog fn args options s =
     (let comparator = comparator_of options;
          thisValue = this_value prog options
      in case cache s fn of
           None \<Rightarrow> invoke prog fn thisValue args s
         | Some cd \<Rightarrow>
             (case call_comparator prog comparator (heap s) (params cd) args of
                Inl e \<Rightarrow> (Inl e, s)
              | Inr eq \<Rightarrow>
                  if eq \<and> strict_eq (thisArg cd) thisValue then (Inr (result cd), s)
                  else invoke prog fn thisValue args s))"

subsection \<open>index.ts: the entry points\<close>

text \<open>
  \<^verbatim>\<open>v ?? {}\<close> followed by the spread of line 20. The object \<^verbatim>\<open>{}\<close> and the objects
  \<^verbatim>\<open>{ ...options, comparator: c }\<close> are read once and never stored or compared, so they
  are property maps, not heap objects.
\<close>

definition options_of :: "heap \<Rightarrow> val \<Rightarrow> props" where
  "options_of h v = (if nullish v then Map.empty else own_props h v)"

text \<open>\<^verbatim>\<open>const [paramsOrOptions, maybeOptions] = rest\<close>\<close>

definition rest_at :: "val list \<Rightarrow> nat \<Rightarrow> val" where
  "rest_at rest i = (if i < length rest then rest ! i else VUndefined)"

text \<open>
  \<^verbatim>\<open>parseRestParams(fn, rest)\<close>. The literal \<^verbatim>\<open>[]\<close> is a new array each time it is
  evaluated.
\<close>

definition parseRestParams :: "program \<Rightarrow> fid \<Rightarrow> val list \<Rightarrow> heap \<Rightarrow> (val \<times> props) \<times> heap" where
  "parseRestParams prog fn rest h =
     (let paramsOrOptions = rest_at rest 0;
          maybeOptions = rest_at rest 1
      in if fn_length prog fn = 0 then
           (let (a, h') = alloc (Array []) h
            in ((VRef a, options_of h' paramsOrOptions), h'))
         else if nullish paramsOrOptions then
           (let (a, h') = alloc (Array []) h
            in ((VRef a, options_of h' maybeOptions), h'))
         else ((paramsOrOptions, options_of h maybeOptions), h))"

definition byRef :: "program \<Rightarrow> fid \<Rightarrow> val list \<Rightarrow> state \<Rightarrow> (exn + val) \<times> state" where
  "byRef prog fn rest s =
     (let ((args, options), h') = parseRestParams prog fn rest (heap s)
      in reCall prog fn args options (s\<lparr>heap := h'\<rparr>))"

definition shallow :: "program \<Rightarrow> fid \<Rightarrow> val list \<Rightarrow> state \<Rightarrow> (exn + val) \<times> state" where
  "shallow prog fn rest s =
     (let ((args, options), h') = parseRestParams prog fn rest (heap s)
      in reCall prog fn args (options(Name ''comparator'' \<mapsto> VFun ShallowEqual))
           (s\<lparr>heap := h'\<rparr>))"

definition deep :: "program \<Rightarrow> fid \<Rightarrow> val list \<Rightarrow> state \<Rightarrow> (exn + val) \<times> state" where
  "deep prog fn rest s =
     (let ((args, options), h') = parseRestParams prog fn rest (heap s)
      in reCall prog fn args (options(Name ''comparator'' \<mapsto> VFun (deepEqual prog)))
           (s\<lparr>heap := h'\<rparr>))"

text \<open>
  The wrappers. \<open>wrap prog fn options\<close> is the function that \<^verbatim>\<open>wrap(fn, options)\<close>
  returns: called with the arguments \<open>xs\<close>, it collects them in a new array (the rest
  parameter \<^verbatim>\<open>...params\<close>) and reads \<^verbatim>\<open>options ?? {}\<close> at that moment.
\<close>

definition wrap :: "program \<Rightarrow> fid \<Rightarrow> val \<Rightarrow> val list \<Rightarrow> state \<Rightarrow> (exn + val) \<times> state" where
  "wrap prog fn options xs s =
     (let (a, h') = alloc (Array xs) (heap s)
      in reCall prog fn (VRef a) (options_of h' options) (s\<lparr>heap := h'\<rparr>))"

definition wrapShallow :: "program \<Rightarrow> fid \<Rightarrow> val list \<Rightarrow> state \<Rightarrow> (exn + val) \<times> state" where
  "wrapShallow prog fn xs s =
     (let (a, h') = alloc (Array xs) (heap s)
      in reCall prog fn (VRef a) [Name ''comparator'' \<mapsto> VFun ShallowEqual] (s\<lparr>heap := h'\<rparr>))"

definition wrapDeep :: "program \<Rightarrow> fid \<Rightarrow> val list \<Rightarrow> state \<Rightarrow> (exn + val) \<times> state" where
  "wrapDeep prog fn xs s =
     (let (a, h') = alloc (Array xs) (heap s)
      in reCall prog fn (VRef a) [Name ''comparator'' \<mapsto> VFun (deepEqual prog)]
           (s\<lparr>heap := h'\<rparr>))"

subsection \<open>index.ts: inspecting and clearing the cache\<close>

definition clearOne :: "fid \<Rightarrow> state \<Rightarrow> state" where
  "clearOne fn s = s\<lparr>cache := (cache s)(fn := None)\<rparr>"

definition peek :: "fid \<Rightarrow> state \<Rightarrow> val" where
  "peek fn s = (case cache s fn of Some cd \<Rightarrow> result cd | None \<Rightarrow> VUndefined)"

definition hasCache :: "fid \<Rightarrow> state \<Rightarrow> bool" where
  "hasCache fn s = (cache s fn \<noteq> None)"

definition clearAll :: "state \<Rightarrow> state" where
  "clearAll s = s\<lparr>cache := Map.empty\<rparr>"

subsection \<open>The hit condition of the specification\<close>

text \<open>
  Section 4.3, step 4, in the words of the specification: a record exists, the
  comparator of the call answers true on the stored argument list and the given one,
  and the stored context is identical to the resolved one. It is compared with
  \<open>reCall\<close> below.
\<close>

definition cache_hit :: "program \<Rightarrow> fid \<Rightarrow> val \<Rightarrow> props \<Rightarrow> state \<Rightarrow> bool" where
  "cache_hit prog fn args options s =
     (case cache s fn of
        None \<Rightarrow> False
      | Some cd \<Rightarrow>
          call_comparator prog (comparator_of options) (heap s) (params cd) args = Inr True
          \<and> strict_eq (thisArg cd) (this_value prog options))"

subsection \<open>Runs of a wrapped callable\<close>

text \<open>
  The calls \<open>f xs\<^sub>1\<close>, \<open>f xs\<^sub>2\<close>, ... made one after the other on the state that the
  one before has left, whether it returned or threw.
\<close>

fun run_calls ::
  "(val list \<Rightarrow> state \<Rightarrow> (exn + val) \<times> state) \<Rightarrow> val list list \<Rightarrow> state \<Rightarrow> state" where
  "run_calls f [] s = s"
| "run_calls f (xs # xss) s = run_calls f xss (snd (f xs s))"

text \<open>
  In a run, a reference that the cache holds is the address of an object that has
  been allocated. The heap of the model never reuses an address, so this reads: the
  stored argument list, when it is a reference, lies inside the heap.
\<close>

definition params_allocated :: "fid \<Rightarrow> state \<Rightarrow> bool" where
  "params_allocated fn s =
     (case cache s fn of
        None \<Rightarrow> True
      | Some cd \<Rightarrow> (case params cd of VRef a \<Rightarrow> a < length (heap s) | _ \<Rightarrow> True))"

subsection \<open>A program to evaluate the definitions on\<close>

text \<open>
  Three callables and a comparator: \<open>User 0\<close> declares no parameter and returns 42;
  \<open>User 1\<close> declares two and returns its first argument, but throws when that is
  \<^verbatim>\<open>null\<close>; every other function declares one and throws. Used as a comparator,
  \<open>User 3\<close> answers true and every other user function false.
\<close>

definition sample :: program where
  "sample =
     \<lparr>fn_length = (\<lambda>f. if f = User 0 then 0 else if f = User 1 then 2 else 1),
      fn_apply = (\<lambda>f this args h.
         if f = User 0 then (Inr (VNum 42), h)
         else if f = User 1 \<and> get_prop h args (Index 0) \<noteq> VNull
           then (Inr (get_prop h args (Index 0)), h)
         else (Inl (Thrown (VStr ''boom'')), h)),
      fn_compare = (\<lambda>n h prev next. n = 3),
      deepEqual = User 4,
      globalThis = VRef 0\<rparr>"

text \<open>
  The state of a fresh module: an empty cache, no call made, and a heap that holds
  the global object at address 0, followed by the objects \<open>h\<close> of the caller.
\<close>

definition start :: "heap \<Rightarrow> state" where
  "start h = \<lparr>cache = Map.empty, heap = Object [] # h, calls = []\<rparr>"

section \<open>Proofs\<close>

lemmas engine_defs = reCall_def invoke_def comparator_of_def this_value_def defaultOptions_def
  field_def call_comparator_def Let_def

lemmas entry_defs = shallow_def byRef_def deep_def wrap_def wrapShallow_def wrapDeep_def
  parseRestParams_def options_of_def rest_at_def alloc_def nullish_def own_props_def deref_def

lemmas shallowEqual_defs = shallowEqual_def Object_keys_def hasOwnProperty_def get_prop_def
  strict_eq_def is_zero_def

subsection \<open>shallowEqual\<close>











subsection \<open>The engine\<close>

lemma invoke_calls:
  "calls (snd (invoke prog fn ctx args s)) = calls s @ [(fn, ctx, args)]"
  by (simp add: invoke_def split: prod.splits sum.splits)


lemma invoke_Inr:
  "fn_apply prog fn ctx args (heap s) = (Inr v, h') \<Longrightarrow>
   invoke prog fn ctx args s =
     (Inr v, s\<lparr>cache := (cache s)(fn \<mapsto> \<lparr>result = v, params = args, thisArg = ctx\<rparr>),
               heap := h', calls := calls s @ [(fn, ctx, args)]\<rparr>)"
  by (simp add: invoke_def)

lemma invoke_result:
  "invoke prog fn ctx args s = (r, s') \<Longrightarrow>
   (\<exists>e. r = Inl e \<and> cache s' = cache s) \<or>
   (\<exists>v. r = Inr v \<and> cache s' = (cache s)(fn \<mapsto> \<lparr>result = v, params = args, thisArg = ctx\<rparr>))"
  by (auto simp: invoke_def split: prod.splits sum.splits)

lemma reCall_hit:
  "cache_hit prog fn args options s \<Longrightarrow>
   \<exists>cd. cache s fn = Some cd \<and> reCall prog fn args options s = (Inr (result cd), s)"
  by (auto simp: cache_hit_def reCall_def Let_def split: option.splits)

lemma reCall_not_hit:
  "\<not> cache_hit prog fn args options s \<Longrightarrow>
   (\<exists>cd e. cache s fn = Some cd \<and>
      call_comparator prog (comparator_of options) (heap s) (params cd) args = Inl e \<and>
      reCall prog fn args options s = (Inl e, s))
   \<or> reCall prog fn args options s = invoke prog fn (this_value prog options) args s"
  by (auto simp: cache_hit_def reCall_def Let_def split: option.splits sum.splits)







text \<open>
  C3 (amended). After a call that returns, the record of the callable holds the
  result that was returned. When the call was not a hit, the record is the one of that
  call: its result, its argument list and its resolved context, and every other
  record is as before. When the call was a hit, nothing is written: the record keeps
  the argument list and the context that were stored.
\<close>

theorem record_after_call:
  "reCall prog fn args options s = (Inr v, s') \<longrightarrow>
     peek fn s' = v \<and>
     (if cache_hit prog fn args options s then s' = s
      else cache s' = (cache s)(fn \<mapsto>
             \<lparr>result = v, params = args, thisArg = this_value prog options\<rparr>))"
proof
  assume *: "reCall prog fn args options s = (Inr v, s')"
  show "peek fn s' = v \<and>
     (if cache_hit prog fn args options s then s' = s
      else cache s' = (cache s)(fn \<mapsto>
             \<lparr>result = v, params = args, thisArg = this_value prog options\<rparr>))"
  proof (cases "cache_hit prog fn args options s")
    case True
    from reCall_hit [OF True] * show ?thesis
      by (auto simp: peek_def True)
  next
    case False
    from reCall_not_hit [OF False] * invoke_result [of prog fn "this_value prog options" args s "Inr v" s']
    show ?thesis by (auto simp: peek_def False)
  qed
qed

theorem record_after_call_witness:
  "peek (User 1)
     (snd (reCall sample (User 1) (VRef 1) [Name ''comparator'' \<mapsto> VFun ShallowEqual]
        (start [Array [VNum 1, VNum 2], Array [VNum 1, VNum 2]]))) = VNum 1
   \<and> cache
     (snd (reCall sample (User 1) (VRef 1) [Name ''comparator'' \<mapsto> VFun ShallowEqual]
        (start [Array [VNum 1, VNum 2], Array [VNum 1, VNum 2]])))
     = [User 1 \<mapsto> \<lparr>result = VNum 1, params = VRef 1, thisArg = VRef 0\<rparr>]"
proof -
  let ?opts = "[Name ''comparator'' \<mapsto> VFun ShallowEqual]"
  let ?s = "start [Array [VNum 1, VNum 2], Array [VNum 1, VNum 2]]"
  have ret: "reCall sample (User 1) (VRef 1) ?opts ?s
      = (Inr (VNum 1), snd (reCall sample (User 1) (VRef 1) ?opts ?s))"
    by (simp add: engine_defs sample_def start_def get_prop_def deref_def)
  have miss: "\<not> cache_hit sample (User 1) (VRef 1) ?opts ?s"
    by (simp add: cache_hit_def start_def)
  have ctx: "this_value sample ?opts = VRef 0"
    by (simp add: engine_defs sample_def)
  from record_after_call [of sample "User 1" "VRef 1" ?opts ?s "VNum 1"
      "snd (reCall sample (User 1) (VRef 1) ?opts ?s)"] ret miss ctx
  show ?thesis by (simp add: start_def)
qed

text \<open>
  C3 as stated fails on a hit. Two calls with \<open>shallowEqual\<close> as the comparator, on two
  arrays \<^verbatim>\<open>[1, 2]\<close> at the addresses 1 and 2: the second call returns the stored result,
  and the record still holds the argument list of the first call, not its own.
\<close>

theorem record_after_hit_counterexample:
  "fst (reCall sample (User 1) (VRef 2) [Name ''comparator'' \<mapsto> VFun ShallowEqual]
     (snd (reCall sample (User 1) (VRef 1) [Name ''comparator'' \<mapsto> VFun ShallowEqual]
        (start [Array [VNum 1, VNum 2], Array [VNum 1, VNum 2]])))) = Inr (VNum 1)
   \<and> cache (snd (reCall sample (User 1) (VRef 2) [Name ''comparator'' \<mapsto> VFun ShallowEqual]
     (snd (reCall sample (User 1) (VRef 1) [Name ''comparator'' \<mapsto> VFun ShallowEqual]
        (start [Array [VNum 1, VNum 2], Array [VNum 1, VNum 2]]))))) (User 1)
     = Some \<lparr>result = VNum 1, params = VRef 1, thisArg = VRef 0\<rparr>
   \<and> cache (snd (reCall sample (User 1) (VRef 2) [Name ''comparator'' \<mapsto> VFun ShallowEqual]
     (snd (reCall sample (User 1) (VRef 1) [Name ''comparator'' \<mapsto> VFun ShallowEqual]
        (start [Array [VNum 1, VNum 2], Array [VNum 1, VNum 2]]))))) (User 1)
     \<noteq> Some \<lparr>result = VNum 1, params = VRef 2, thisArg = VRef 0\<rparr>"
  by (simp add: engine_defs sample_def start_def shallowEqual_defs deref_def)





text \<open>
  C4. Two calls \<^verbatim>\<open>byRef(f)\<close> of a callable that declares no parameter apply it twice:
  \<open>parseRestParams\<close> makes a new empty array for each call, and \<^verbatim>\<open>Object.is\<close> of the
  stored array and the new one is false. Two calls \<^verbatim>\<open>shallow(f)\<close> apply it once.
\<close>

theorem byRef_zero_arity_applies_twice:
  "calls (snd (byRef sample (User 0) [] (snd (byRef sample (User 0) [] (start [])))))
     = [(User 0, VRef 0, VRef 1), (User 0, VRef 0, VRef 2)]
   \<and> calls (snd (shallow sample (User 0) [] (snd (shallow sample (User 0) [] (start [])))))
     = [(User 0, VRef 0, VRef 1)]"
  by (simp add: engine_defs entry_defs sample_def start_def Object_is_def shallowEqual_defs)








subsection \<open>The wrappers\<close>

lemma array_no_name: "map_of (zip (map Index js) xs) (Name n) = None"
  by (auto simp: map_of_eq_None_iff dest!: set_zip_leftD)

lemma options_of_alloc_array:
  assumes "options_of h options (Name ''comparator'') = None"
  shows "options_of (h @ [Array xs]) options (Name ''comparator'') = None"
proof (cases options)
  case (VRef a)
  show ?thesis
  proof (cases "a < length h")
    case True
    with assms VRef show ?thesis
      by (simp add: options_of_def own_props_def deref_def nullish_def nth_append)
  next
    case False
    with VRef show ?thesis
      by (auto simp: options_of_def own_props_def deref_def nullish_def nth_append array_no_name)
  qed
qed (use assms in \<open>simp_all add: options_of_def own_props_def nullish_def\<close>)

lemma comparator_of_default:
  "options (Name ''comparator'') = None \<Longrightarrow> comparator_of options = VFun ObjectIs"
  by (simp add: comparator_of_def field_def defaultOptions_def map_add_def)

lemma reCall_fresh_args:
  assumes "options (Name ''comparator'') = None"
    and "\<And>cd. cache s fn = Some cd \<Longrightarrow> params cd \<noteq> args"
  shows "reCall prog fn args options s = invoke prog fn (this_value prog options) args s"
  using assms
  by (auto simp: reCall_def Let_def comparator_of_default call_comparator_def Object_is_def
      split: option.splits)

lemma wrap_step:
  assumes alloc: "params_allocated fn s"
    and nocmp: "options_of (heap s) options (Name ''comparator'') = None"
  shows "wrap prog fn options xs s =
           invoke prog fn (this_value prog (options_of (heap s @ [Array xs]) options))
             (VRef (length (heap s))) (s\<lparr>heap := heap s @ [Array xs]\<rparr>)"
proof -
  have fresh: "\<And>cd. cache (s\<lparr>heap := heap s @ [Array xs]\<rparr>) fn = Some cd \<Longrightarrow>
          params cd \<noteq> VRef (length (heap s))"
    using alloc by (auto simp: params_allocated_def split: val.splits)
  have "reCall prog fn (VRef (length (heap s))) (options_of (heap s @ [Array xs]) options)
          (s\<lparr>heap := heap s @ [Array xs]\<rparr>)
        = invoke prog fn (this_value prog (options_of (heap s @ [Array xs]) options))
            (VRef (length (heap s))) (s\<lparr>heap := heap s @ [Array xs]\<rparr>)"
    using options_of_alloc_array [OF nocmp, of xs] fresh by (rule reCall_fresh_args)
  then show ?thesis
    by (simp add: wrap_def alloc_def)
qed

lemma invoke_heap:
  "heap (snd (invoke prog fn ctx args s)) = snd (fn_apply prog fn ctx args (heap s))"
  by (simp add: invoke_def split: prod.splits sum.splits)

lemma invoke_params_allocated:
  assumes "params_allocated fn s"
    and "a < length (heap s)"
    and "length (heap s) \<le> length (snd (fn_apply prog fn ctx (VRef a) (heap s)))"
  shows "params_allocated fn (snd (invoke prog fn ctx (VRef a) s))"
  using assms
  by (auto simp: params_allocated_def invoke_def split: prod.splits sum.splits option.splits val.splits)

text \<open>
  C9. Take a callable that never shrinks the heap and does not give the options
  object a comparator, and a state in which the stored argument list is an allocated
  object and the options (possibly \<^verbatim>\<open>undefined\<close>) have no comparator. Then every call of
  the function that \<open>wrap\<close> returns applies the callable to its new array, and a run
  of \<open>n\<close> calls applies it \<open>n\<close> times: no call is a hit.
\<close>

theorem wrap_never_hits:
  assumes "params_allocated fn s"
    and "options_of (heap s) options (Name ''comparator'') = None"
    and "\<And>this args h. length h \<le> length (snd (fn_apply prog fn this args h))"
    and "\<And>this args h. options_of h options (Name ''comparator'') = None \<Longrightarrow>
           options_of (snd (fn_apply prog fn this args h)) options (Name ''comparator'') = None"
  shows "calls (snd (wrap prog fn options xs s))
           = calls s @ [(fn, this_value prog (options_of (heap s @ [Array xs]) options),
                         VRef (length (heap s)))]
         \<and> length (calls (run_calls (wrap prog fn options) xss s)) = length (calls s) + length xss"
proof
  show "calls (snd (wrap prog fn options xs s))
           = calls s @ [(fn, this_value prog (options_of (heap s @ [Array xs]) options),
                         VRef (length (heap s)))]"
    using assms(1,2) by (simp add: wrap_step invoke_calls)
  from assms(1,2)
  show "length (calls (run_calls (wrap prog fn options) xss s)) = length (calls s) + length xss"
  proof (induction xss arbitrary: s)
    case Nil
    show ?case by simp
  next
    case (Cons ys yss)
    let ?s0 = "s\<lparr>heap := heap s @ [Array ys]\<rparr>"
    let ?ctx = "this_value prog (options_of (heap s @ [Array ys]) options)"
    let ?s' = "snd (wrap prog fn options ys s)"
    have step: "wrap prog fn options ys s = invoke prog fn ?ctx (VRef (length (heap s))) ?s0"
      using Cons.prems by (rule wrap_step)
    have pa: "params_allocated fn ?s0"
      using Cons.prems(1) by (auto simp: params_allocated_def split: option.splits val.splits)
    have le: "length (heap ?s0) \<le> length (snd (fn_apply prog fn ?ctx (VRef (length (heap s))) (heap ?s0)))"
      by (rule assms(3))
    have a: "params_allocated fn ?s'"
      unfolding step
      by (rule invoke_params_allocated [OF pa _ le]) simp
    have "options_of (heap ?s0) options (Name ''comparator'') = None"
      using options_of_alloc_array [OF Cons.prems(2)] by simp
    then have b: "options_of (heap ?s') options (Name ''comparator'') = None"
      unfolding step invoke_heap by (rule assms(4))
    have "length (calls ?s') = Suc (length (calls s))"
      unfolding step by (simp add: invoke_calls)
    with Cons.IH [OF a b] show ?case by simp
  qed
qed

theorem wrap_never_hits_witness:
  "calls (snd (wrap sample (User 1) VUndefined [VNum 1, VNum 2]
       (snd (wrap sample (User 1) VUndefined [VNum 1, VNum 2] (start [])))))
     = [(User 1, VRef 0, VRef 1), (User 1, VRef 0, VRef 2)]
   \<and> length (calls (run_calls (wrap sample (User 1) VUndefined)
        [[VNum 1, VNum 2], [VNum 1, VNum 2], [VNum 1, VNum 2]] (start []))) = 3"
proof -
  let ?s1 = "snd (wrap sample (User 1) VUndefined [VNum 1, VNum 2] (start []))"
  have grows: "\<And>this args h. length h \<le> length (snd (fn_apply sample (User 1) this args h))"
    by (simp add: sample_def)
  have keeps: "\<And>this args h. options_of h VUndefined (Name ''comparator'') = None \<Longrightarrow>
      options_of (snd (fn_apply sample (User 1) this args h)) VUndefined (Name ''comparator'') = None"
    by (simp add: options_of_def nullish_def)
  have nocmp: "\<And>s. options_of (heap s) VUndefined (Name ''comparator'') = None"
    by (simp add: options_of_def nullish_def)
  have s1: "?s1 = \<lparr>cache = [User 1 \<mapsto> \<lparr>result = VNum 1, params = VRef 1, thisArg = VRef 0\<rparr>],
      heap = [Object [], Array [VNum 1, VNum 2]], calls = [(User 1, VRef 0, VRef 1)]\<rparr>"
    by (simp add: engine_defs entry_defs sample_def start_def get_prop_def)
  have alloc0: "params_allocated (User 1) (start [])"
    by (simp add: params_allocated_def start_def)
  have alloc1: "params_allocated (User 1) ?s1"
    unfolding s1 by (simp add: params_allocated_def)
  have "calls (snd (wrap sample (User 1) VUndefined [VNum 1, VNum 2] ?s1))
     = calls ?s1 @ [(User 1,
          this_value sample (options_of (heap ?s1 @ [Array [VNum 1, VNum 2]]) VUndefined),
          VRef (length (heap ?s1)))]"
    using wrap_never_hits [OF alloc1 nocmp grows keeps, of "[VNum 1, VNum 2]" "[]"]
    by blast
  then have "calls (snd (wrap sample (User 1) VUndefined [VNum 1, VNum 2] ?s1))
     = [(User 1, VRef 0, VRef 1), (User 1, VRef 0, VRef 2)]"
    unfolding s1 by (simp add: engine_defs options_of_def nullish_def sample_def)
  moreover have "length (calls (run_calls (wrap sample (User 1) VUndefined)
        [[VNum 1, VNum 2], [VNum 1, VNum 2], [VNum 1, VNum 2]] (start []))) = 3"
    using wrap_never_hits [OF alloc0 nocmp grows keeps, of "[]"
        "[[VNum 1, VNum 2], [VNum 1, VNum 2], [VNum 1, VNum 2]]"]
    by (simp add: start_def)
  ultimately show ?thesis by blast
qed












end
